theory Spec2Isabelle
  imports Complex_Main
begin

section \<open>Data model\<close>

text \<open>
  The program is one function, \<^verbatim>\<open>calculate_mortgage_savings\<close>, of the file
  \<^verbatim>\<open>mortgage_web_tool.py\<close>. Its Python floats are read as real numbers (exact
  arithmetic, no rounding, no overflow to infinity) and its Python integers as \<open>int\<close>.
  The one place where the program can produce a value that is not a finite number is the
  call of \<^verbatim>\<open>npf.nper\<close>; there the value is an \<open>option\<close>, with \<open>None\<close> for
  \<^verbatim>\<open>nan\<close> and the infinities.

  The arithmetic of the model is exact: the rounding of doubles, and the absorption of a
  small term by a large one, are not in it. The claims are stated with this in mind. They
  are about the order of values and the structure of the loop, which a monotone rounding
  keeps; none of them asserts that the loop and the closed formula of \<^verbatim>\<open>npf.nper\<close>
  agree to the digit, and the one bound on the number of months leaves a month of slack.

  Each entry appended to \<^verbatim>\<open>history\<close> is a dictionary with the three keys below.
\<close>

record month_record =
  month :: int
  remaining_principal :: real
  monthly_interest :: real

text \<open>
  The local variables that the \<^verbatim>\<open>while\<close> loop reads and writes. The field
  \<open>written\<close> is the sequence of lines that \<^verbatim>\<open>st.write\<close> has put on the page;
  a line is kept as the three values that the format string prints.
\<close>

record sim_state =
  current_principal :: real
  total_interest :: real
  month_count :: int
  prepayment_month :: int
  history :: "month_record list"
  written :: "month_record list"

text \<open>
  The returned dictionary, keys \<^verbatim>\<open>total_months\<close>, \<^verbatim>\<open>total_interest\<close>,
  \<^verbatim>\<open>interest_saved\<close> and \<^verbatim>\<open>history\<close> (prefixed here, since two of them
  are also names of local variables).
\<close>

record result =
  res_total_months :: int
  res_total_interest :: real
  res_interest_saved :: "real option"
  res_history :: "month_record list"

section \<open>The computation\<close>

definition monthly_rate :: "real \<Rightarrow> real" where
  "monthly_rate annual_rate = annual_rate / 12 / 100"

text \<open>
  Modelled from the spec: \<^verbatim>\<open>npf.nper\<close> belongs to the library numpy_financial,
  which is not part of the repository. The spec calls it the standard annuity
  payoff-period formula, with the zero-rate case \<open>periods = principal / payment\<close>.
  The definition follows the library's formula for \<open>fv = 0\<close> and payments at the end
  of a period: \<open>-pv / pmt\<close> at rate zero, and otherwise
  \<open>log (z / (pv + z)) / log (1 + rate)\<close> with \<open>z = pmt / rate\<close>. Where the
  floating-point formula divides by zero or takes the logarithm of a number that is not
  positive, the result is not a finite number: \<open>None\<close>. The logarithm is the real
  logarithm; when a concrete call is evaluated it stays in the result as a term.
\<close>

definition nper :: "real \<Rightarrow> real \<Rightarrow> real \<Rightarrow> real option" where
  "nper rate pmt pv =
     (if rate = 0 then (if pmt = 0 then None else Some (- pv / pmt))
      else let z = pmt / rate
           in if pv + z = 0 \<or> z / (pv + z) \<le> 0 \<or> 1 + rate \<le> 0 then None
              else Some (ln (z / (pv + z)) / ln (1 + rate)))"

text \<open>Line 24: the total interest of the schedule without prepayments.\<close>

definition original_total_interest :: "real \<Rightarrow> real \<Rightarrow> real \<Rightarrow> real option" where
  "original_total_interest initial_principal monthly_payment rate =
     map_option (\<lambda>periods. monthly_payment * periods - initial_principal)
       (nper rate (- monthly_payment) initial_principal)"

text \<open>
  Lines 27 to 57: one pass through the body of the loop. The frequency is the string the
  caller passed; any string other than \<^verbatim>\<open>'monthly'\<close> and \<^verbatim>\<open>'yearly'\<close> takes
  neither branch, so no prepayment is made.
\<close>

definition loop_body ::
  "real \<Rightarrow> real \<Rightarrow> real \<Rightarrow> string \<Rightarrow> bool \<Rightarrow> sim_state \<Rightarrow> sim_state" where
  "loop_body monthly_payment rate prepayment_amount prepayment_freq verbose s =
     (let count = month_count s + 1;
          interest = current_principal s * rate;
          principal_part = monthly_payment - interest;
          total = total_interest s + interest;
          balance = current_principal s - principal_part;
          (balance, last_prepaid) =
            (if prepayment_freq = ''monthly'' then
               (balance - prepayment_amount, prepayment_month s)
             else if prepayment_freq = ''yearly'' then
               (if (count - prepayment_month s) mod 12 = 0
                then (balance - prepayment_amount, count)
                else (balance, prepayment_month s))
             else (balance, prepayment_month s));
          balance = max balance 0;
          entry = \<lparr>month = count, remaining_principal = balance,
                    monthly_interest = interest\<rparr>
      in \<lparr>current_principal = balance, total_interest = total, month_count = count,
          prepayment_month = last_prepaid, history = history s @ [entry],
          written = (if verbose then written s @ [entry] else written s)\<rparr>)"

text \<open>
  Line 26: \<^verbatim>\<open>while current_principal > 0\<close>. Nothing in the program bounds the number
  of passes, so the loop is a partial function: \<open>None\<close> is a run that never leaves it.
\<close>

partial_function (option) while_loop ::
  "real \<Rightarrow> real \<Rightarrow> real \<Rightarrow> string \<Rightarrow> bool \<Rightarrow> sim_state \<Rightarrow> sim_state option" where
  "while_loop monthly_payment rate prepayment_amount prepayment_freq verbose s =
     (if current_principal s > 0
      then while_loop monthly_payment rate prepayment_amount prepayment_freq verbose
             (loop_body monthly_payment rate prepayment_amount prepayment_freq verbose s)
      else Some s)"

text \<open>Lines 17 to 21: the values of the local variables before the loop.\<close>

definition initial_state :: "real \<Rightarrow> sim_state" where
  "initial_state initial_principal =
     \<lparr>current_principal = initial_principal, total_interest = 0, month_count = 0,
      prepayment_month = 0, history = [], written = []\<rparr>"

text \<open>
  The whole function. It returns the result dictionary; the second component is what
  \<^verbatim>\<open>st.write\<close> has shown. \<open>None\<close> is a call that does not return.
\<close>

definition calculate_mortgage_savings ::
  "real \<Rightarrow> real \<Rightarrow> real \<Rightarrow> real \<Rightarrow> string \<Rightarrow> bool \<Rightarrow> (result \<times> month_record list) option" where
  "calculate_mortgage_savings initial_principal monthly_payment annual_rate
       prepayment_amount prepayment_freq verbose =
     (let rate = monthly_rate annual_rate;
          original = original_total_interest initial_principal monthly_payment rate
      in case while_loop monthly_payment rate prepayment_amount prepayment_freq verbose
                (initial_state initial_principal) of
           None \<Rightarrow> None
         | Some s \<Rightarrow>
             Some (\<lparr>res_total_months = month_count s,
                    res_total_interest = total_interest s,
                    res_interest_saved = map_option (\<lambda>orig. orig - total_interest s) original,
                    res_history = history s\<rparr>,
                   written s))"

text \<open>The state after \<open>k\<close> passes through the body, started from the initial state.\<close>

abbreviation run ::
  "real \<Rightarrow> real \<Rightarrow> real \<Rightarrow> string \<Rightarrow> bool \<Rightarrow> real \<Rightarrow> nat \<Rightarrow> sim_state" where
  "run M r A f v P k \<equiv> (loop_body M r A f v ^^ k) (initial_state P)"

text \<open>
  The amount that one pass takes off the balance as prepayment (lines 37 to 44), as a
  function of the frequency, the number of the month and the month of the last yearly
  prepayment.
\<close>

definition prepaid :: "string \<Rightarrow> real \<Rightarrow> int \<Rightarrow> int \<Rightarrow> real" where
  "prepaid f A count last_prepaid =
     (if f = ''monthly'' then A
      else if f = ''yearly'' \<and> (count - last_prepaid) mod 12 = 0 then A else 0)"

text \<open>
  The balance of the schedule without prepayments and without the floor at zero: line 34
  alone, repeated. It is used to follow runs in which nothing is prepaid.
\<close>

primrec unclamped :: "real \<Rightarrow> real \<Rightarrow> real \<Rightarrow> nat \<Rightarrow> real" where
  "unclamped P M r 0 = P"
| "unclamped P M r (Suc k) = unclamped P M r k - (M - unclamped P M r k * r)"

declare while_loop.simps [code]

section \<open>The loop as iteration of its body\<close>

lemma while_loop_funpow:
  assumes "\<not> current_principal ((loop_body M r A f v ^^ k) s) > 0"
    and "\<forall>j<k. current_principal ((loop_body M r A f v ^^ j) s) > 0"
  shows "while_loop M r A f v s = Some ((loop_body M r A f v ^^ k) s)"
  using assms
proof (induction k arbitrary: s)
  case 0
  then show ?case by (simp add: while_loop.simps)
next
  case (Suc k)
  have pos: "current_principal s > 0" using Suc.prems(2) by force
  have a: "\<not> current_principal ((loop_body M r A f v ^^ k) (loop_body M r A f v s)) > 0"
    using Suc.prems(1) by (simp add: funpow_swap1)
  have b: "\<forall>j<k. current_principal ((loop_body M r A f v ^^ j) (loop_body M r A f v s)) > 0"
  proof (intro allI impI)
    fix j assume "j < k"
    then have "current_principal ((loop_body M r A f v ^^ Suc j) s) > 0"
      using Suc.prems(2) by (meson Suc_less_eq)
    then show "current_principal ((loop_body M r A f v ^^ j) (loop_body M r A f v s)) > 0"
      by (simp add: funpow_swap1)
  qed
  have "while_loop M r A f v s = while_loop M r A f v (loop_body M r A f v s)"
    using pos by (subst while_loop.simps) simp
  also have "\<dots> = Some ((loop_body M r A f v ^^ k) (loop_body M r A f v s))"
    by (rule Suc.IH [OF a b])
  finally show ?case by (simp add: funpow_swap1)
qed

lemma while_loop_SomeD:
  assumes "while_loop M r A f v s = Some t"
  shows "\<exists>k. t = (loop_body M r A f v ^^ k) s \<and> \<not> current_principal t > 0
           \<and> (\<forall>j<k. current_principal ((loop_body M r A f v ^^ j) s) > 0)"
  using assms
proof (induction M r A f v s t rule: while_loop.raw_induct [rotated 1, consumes 1])
  case (1 loop M r A f v s t)
  show ?case
  proof (cases "current_principal s > 0")
    case False
    with 1(2) have "t = s" by simp
    with False show ?thesis by (intro exI [of _ 0]) simp
  next
    case True
    with 1(2) have "loop M r A f v (loop_body M r A f v s) = Some t" by simp
    from 1(1) [OF this] obtain k where
      k: "t = (loop_body M r A f v ^^ k) (loop_body M r A f v s)"
         "\<not> current_principal t > 0"
         "\<forall>j<k. current_principal ((loop_body M r A f v ^^ j) (loop_body M r A f v s)) > 0"
      by (elim conjE exE)
    have "\<forall>j<Suc k. current_principal ((loop_body M r A f v ^^ j) s) > 0"
    proof (intro allI impI)
      fix j assume j: "j < Suc k"
      show "current_principal ((loop_body M r A f v ^^ j) s) > 0"
      proof (cases j)
        case 0
        then show ?thesis using True by simp
      next
        case (Suc i)
        then have "i < k" using j by simp
        then show ?thesis using k(3) Suc by (simp add: funpow_swap1)
      qed
    qed
    with k(1,2) show ?thesis
      by (intro exI [of _ "Suc k"]) (simp add: funpow_swap1)
  qed
qed

section \<open>One pass, field by field\<close>

lemma body_current_principal:
  "current_principal (loop_body M r A f v s) =
     max (current_principal s - (M - current_principal s * r)
            - prepaid f A (month_count s + 1) (prepayment_month s)) 0"
  by (simp add: loop_body_def prepaid_def Let_def)

lemma body_total_interest:
  "total_interest (loop_body M r A f v s) = total_interest s + current_principal s * r"
  by (simp add: loop_body_def Let_def split: prod.splits)

lemma body_month_count: "month_count (loop_body M r A f v s) = month_count s + 1"
  by (simp add: loop_body_def Let_def split: prod.splits)

lemma body_prepayment_month:
  "prepayment_month (loop_body M r A f v s) =
     (if f = ''yearly'' \<and> (month_count s + 1 - prepayment_month s) mod 12 = 0
      then month_count s + 1 else prepayment_month s)"
  by (simp add: loop_body_def Let_def)

lemma body_history:
  "history (loop_body M r A f v s) =
     history s @ [\<lparr>month = month_count s + 1,
                    remaining_principal = current_principal (loop_body M r A f v s),
                    monthly_interest = current_principal s * r\<rparr>]"
  by (simp add: loop_body_def prepaid_def Let_def)

lemma body_written:
  "written (loop_body M r A f v s) =
     (if v then written s @ [last (history (loop_body M r A f v s))] else written s)"
  by (simp add: loop_body_def prepaid_def Let_def)

section \<open>The states of a run\<close>

lemma run_month_count: "month_count (run M r A f v P k) = int k"
  by (induction k) (simp_all add: initial_state_def body_month_count)

lemma mod12_norm: "(1 + k mod 12) mod 12 = (k + 1) mod (12::int)"
  by (simp add: mod_add_right_eq add.commute)

lemma mod12_succ:
  assumes "(k + 1) mod 12 \<noteq> (0::int)"
  shows "(k + 1) mod 12 = k mod 12 + 1"
proof -
  have eq: "(k + 1) mod 12 = (k mod 12 + 1) mod 12" by (simp add: mod_add_left_eq)
  have bounds: "0 \<le> k mod 12" "k mod 12 < 12" by simp_all
  have "k mod 12 + 1 \<noteq> 12" using assms eq by auto
  with bounds have "k mod 12 + 1 < 12" by linarith
  with bounds(1) have "(k mod 12 + 1) mod 12 = k mod 12 + 1" by simp
  with eq show ?thesis by simp
qed

lemma run_prepayment_month:
  "prepayment_month (run M r A ''yearly'' v P k) = int k - int k mod 12"
proof (induction k)
  case 0
  then show ?case by (simp add: initial_state_def)
next
  case (Suc k)
  have step: "prepayment_month (run M r A ''yearly'' v P (Suc k)) =
          (if (int k + 1) mod 12 = 0 then int k + 1 else int k - int k mod 12)"
    by (simp add: body_prepayment_month run_month_count Suc mod12_norm)
  show ?case
  proof (cases "(int k + 1) mod 12 = 0")
    case True
    with step show ?thesis by (simp add: add.commute)
  next
    case False
    from mod12_succ [OF False] False step show ?thesis by (simp add: add.commute)
  qed
qed

lemma run_prepayment_month_other:
  "f \<noteq> ''yearly'' \<Longrightarrow> prepayment_month (run M r A f v P k) = 0"
proof (induction k)
  case 0
  then show ?case by (simp add: initial_state_def)
next
  case (Suc k)
  then show ?case by (simp add: body_prepayment_month)
qed

lemma run_prepaid_yearly:
  "prepaid ''yearly'' A (month_count (run M r A ''yearly'' v P k) + 1)
      (prepayment_month (run M r A ''yearly'' v P k)) =
   (if (int k + 1) mod 12 = 0 then A else 0)"
  by (simp add: run_month_count run_prepayment_month prepaid_def mod12_norm)

lemma run_history:
  "history (run M r A f v P k) =
     map (\<lambda>i. \<lparr>month = int i + 1,
                remaining_principal = current_principal (run M r A f v P (Suc i)),
                monthly_interest = current_principal (run M r A f v P i) * r\<rparr>) [0..<k]"
proof (induction k)
  case 0
  then show ?case by (simp add: initial_state_def)
next
  case (Suc k)
  then show ?case by (simp add: body_history run_month_count)
qed

lemma run_total_interest:
  "total_interest (run M r A f v P k) = (\<Sum>i<k. current_principal (run M r A f v P i) * r)"
proof (induction k)
  case 0
  then show ?case by (simp add: initial_state_def)
next
  case (Suc k)
  then show ?case by (simp add: body_total_interest)
qed

lemma run_written:
  "written (run M r A f v P k) = (if v then history (run M r A f v P k) else [])"
proof (induction k)
  case 0
  then show ?case by (simp add: initial_state_def)
next
  case (Suc k)
  then show ?case by (cases v) (simp_all add: body_written body_history)
qed

section \<open>What a returning call has computed\<close>

lemma calculate_SomeD:
  assumes "calculate_mortgage_savings P M a A f v = Some (res, out)"
  shows "\<exists>k. \<not> current_principal (run M (monthly_rate a) A f v P k) > 0
           \<and> (\<forall>j<k. current_principal (run M (monthly_rate a) A f v P j) > 0)
           \<and> res = \<lparr>res_total_months = int k,
                     res_total_interest = total_interest (run M (monthly_rate a) A f v P k),
                     res_interest_saved =
                       map_option (\<lambda>orig. orig - total_interest (run M (monthly_rate a) A f v P k))
                         (original_total_interest P M (monthly_rate a)),
                     res_history = history (run M (monthly_rate a) A f v P k)\<rparr>
           \<and> out = written (run M (monthly_rate a) A f v P k)"
proof -
  from assms obtain t where
    t: "while_loop M (monthly_rate a) A f v (initial_state P) = Some t"
    and res: "res = \<lparr>res_total_months = month_count t, res_total_interest = total_interest t,
               res_interest_saved = map_option (\<lambda>orig. orig - total_interest t)
                 (original_total_interest P M (monthly_rate a)),
               res_history = history t\<rparr>"
    and out: "out = written t"
    by (auto simp: calculate_mortgage_savings_def Let_def split: option.splits)
  from while_loop_SomeD [OF t] obtain k where
    k: "t = run M (monthly_rate a) A f v P k" "\<not> current_principal t > 0"
       "\<forall>j<k. current_principal (run M (monthly_rate a) A f v P j) > 0"
    by (elim conjE exE)
  show ?thesis
    using k res out by (intro exI [of _ k]) (simp add: run_month_count)
qed

lemma calculate_SomeI:
  assumes "\<not> current_principal (run M (monthly_rate a) A f v P k) > 0"
    and "\<forall>j<k. current_principal (run M (monthly_rate a) A f v P j) > 0"
  shows "calculate_mortgage_savings P M a A f v =
           Some (\<lparr>res_total_months = int k,
                  res_total_interest = total_interest (run M (monthly_rate a) A f v P k),
                  res_interest_saved =
                    map_option (\<lambda>orig. orig - total_interest (run M (monthly_rate a) A f v P k))
                      (original_total_interest P M (monthly_rate a)),
                  res_history = history (run M (monthly_rate a) A f v P k)\<rparr>,
                 written (run M (monthly_rate a) A f v P k))"
  using while_loop_funpow [OF assms]
  by (simp add: calculate_mortgage_savings_def Let_def run_month_count)

lemma calculate_NoneI:
  assumes "\<forall>k. current_principal (run M (monthly_rate a) A f v P k) > 0"
  shows "calculate_mortgage_savings P M a A f v = None"
proof (cases "calculate_mortgage_savings P M a A f v")
  case None
  then show ?thesis .
next
  case (Some p)
  obtain res out where "p = (res, out)" by (cases p)
  with Some calculate_SomeD [of P M a A f v res out] assms show ?thesis by blast
qed

lemma nper_zero_principal:
  assumes "0 < M" "0 \<le> r"
  shows "nper r (- M) 0 = Some 0"
proof (cases "r = 0")
  case True
  with assms show ?thesis by (simp add: nper_def)
next
  case False
  with assms have "0 < r" by simp
  with assms show ?thesis by (simp add: nper_def Let_def)
qed

section \<open>Concrete calls\<close>

lemmas eval_defs =
  calculate_mortgage_savings_def while_loop.simps loop_body_def initial_state_def
  monthly_rate_def original_total_interest_def nper_def Let_def

lemma example_zero_rate:
  "calculate_mortgage_savings 90 30 0 0 ''monthly'' False =
     Some (\<lparr>res_total_months = 3, res_total_interest = 0, res_interest_saved = Some 0,
            res_history =
              [\<lparr>month = 1, remaining_principal = 60, monthly_interest = 0\<rparr>,
               \<lparr>month = 2, remaining_principal = 30, monthly_interest = 0\<rparr>,
               \<lparr>month = 3, remaining_principal = 0, monthly_interest = 0\<rparr>]\<rparr>, [])"
  by (simp add: eval_defs)

lemma example_two_months:
  "calculate_mortgage_savings 1000 600 12 0 ''monthly'' True =
     Some (\<lparr>res_total_months = 2, res_total_interest = 141 / 10,
            res_interest_saved = Some (600 * (ln (60 / 59) / ln (101 / 100)) - 1000 - 141 / 10),
            res_history =
              [\<lparr>month = 1, remaining_principal = 410, monthly_interest = 10\<rparr>,
               \<lparr>month = 2, remaining_principal = 0, monthly_interest = 41 / 10\<rparr>]\<rparr>,
           [\<lparr>month = 1, remaining_principal = 410, monthly_interest = 10\<rparr>,
            \<lparr>month = 2, remaining_principal = 0, monthly_interest = 41 / 10\<rparr>])"
  by (simp add: eval_defs)

lemma example_yearly:
  "calculate_mortgage_savings 130 10 0 5 ''yearly'' False =
     Some (\<lparr>res_total_months = 13, res_total_interest = 0, res_interest_saved = Some 0,
            res_history =
              [\<lparr>month = 1, remaining_principal = 120, monthly_interest = 0\<rparr>,
               \<lparr>month = 2, remaining_principal = 110, monthly_interest = 0\<rparr>,
               \<lparr>month = 3, remaining_principal = 100, monthly_interest = 0\<rparr>,
               \<lparr>month = 4, remaining_principal = 90, monthly_interest = 0\<rparr>,
               \<lparr>month = 5, remaining_principal = 80, monthly_interest = 0\<rparr>,
               \<lparr>month = 6, remaining_principal = 70, monthly_interest = 0\<rparr>,
               \<lparr>month = 7, remaining_principal = 60, monthly_interest = 0\<rparr>,
               \<lparr>month = 8, remaining_principal = 50, monthly_interest = 0\<rparr>,
               \<lparr>month = 9, remaining_principal = 40, monthly_interest = 0\<rparr>,
               \<lparr>month = 10, remaining_principal = 30, monthly_interest = 0\<rparr>,
               \<lparr>month = 11, remaining_principal = 20, monthly_interest = 0\<rparr>,
               \<lparr>month = 12, remaining_principal = 5, monthly_interest = 0\<rparr>,
               \<lparr>month = 13, remaining_principal = 0, monthly_interest = 0\<rparr>]\<rparr>, [])"
  by (simp add: eval_defs)

lemma take_shifted:
  "take k (g 0 # map (\<lambda>i. g (Suc i)) [0..<k]) = map g [0..<k]"
  by (rule nth_equalityI) (auto simp: nth_Cons split: nat.splits)

section \<open>The verbose flag\<close>

lemma run_verbose:
  "current_principal (run M r A f v P k) = current_principal (run M r A f v' P k)
   \<and> total_interest (run M r A f v P k) = total_interest (run M r A f v' P k)
   \<and> month_count (run M r A f v P k) = month_count (run M r A f v' P k)
   \<and> prepayment_month (run M r A f v P k) = prepayment_month (run M r A f v' P k)
   \<and> history (run M r A f v P k) = history (run M r A f v' P k)"
proof (induction k)
  case 0
  then show ?case by simp
next
  case (Suc k)
  then have ih:
    "current_principal (run M r A f v P k) = current_principal (run M r A f v' P k)"
    "total_interest (run M r A f v P k) = total_interest (run M r A f v' P k)"
    "month_count (run M r A f v P k) = month_count (run M r A f v' P k)"
    "prepayment_month (run M r A f v P k) = prepayment_month (run M r A f v' P k)"
    "history (run M r A f v P k) = history (run M r A f v' P k)"
    by simp_all
  show ?case
    by (simp only: funpow.simps o_apply body_current_principal body_total_interest
          body_month_count body_prepayment_month body_history ih simp_thms)
qed

lemma calculate_verbose:
  assumes "calculate_mortgage_savings P M a A f v = Some (res, out)"
  shows "\<exists>out'. calculate_mortgage_savings P M a A f v' = Some (res, out')"
proof -
  let ?r = "monthly_rate a"
  from calculate_SomeD [OF assms] obtain k where
    stop: "\<not> current_principal (run M ?r A f v P k) > 0"
    and pos: "\<forall>j<k. current_principal (run M ?r A f v P j) > 0"
    and res: "res = \<lparr>res_total_months = int k,
            res_total_interest = total_interest (run M ?r A f v P k),
            res_interest_saved =
              map_option (\<lambda>orig. orig - total_interest (run M ?r A f v P k))
                (original_total_interest P M ?r),
            res_history = history (run M ?r A f v P k)\<rparr>"
    by (elim conjE exE)
  have cp: "\<And>j. current_principal (run M ?r A f v P j) = current_principal (run M ?r A f v' P j)"
    using run_verbose [where v = v and v' = v'] by blast
  have ti: "total_interest (run M ?r A f v P k) = total_interest (run M ?r A f v' P k)"
    using run_verbose [where v = v and v' = v'] by blast
  have hi: "history (run M ?r A f v P k) = history (run M ?r A f v' P k)"
    using run_verbose [where v = v and v' = v'] by blast
  have stop': "\<not> current_principal (run M ?r A f v' P k) > 0" using stop cp by simp
  have pos': "\<forall>j<k. current_principal (run M ?r A f v' P j) > 0" using pos cp by simp
  show ?thesis
    using calculate_SomeI [OF stop' pos'] by (simp add: res ti hi)
qed

section \<open>Balances under the amortizing-payment precondition\<close>

lemma prepaid_bounds: "0 \<le> A \<Longrightarrow> 0 \<le> prepaid f A c l \<and> prepaid f A c l \<le> A"
  by (simp add: prepaid_def)

lemma body_nonneg: "0 \<le> current_principal (loop_body M r A f v s)"
  by (simp add: body_current_principal)

lemma body_decrease:
  assumes "0 \<le> r" "0 \<le> A" "P * r < M"
    and "0 \<le> current_principal s" "current_principal s \<le> P"
  shows "current_principal (loop_body M r A f v s) \<le> max (current_principal s - (M - P * r)) 0"
proof -
  have "current_principal s * r \<le> P * r"
    using assms(1,5) by (rule_tac mult_right_mono)
  moreover have "0 \<le> prepaid f A (month_count s + 1) (prepayment_month s)"
    using prepaid_bounds [OF assms(2)] by simp
  ultimately show ?thesis
    unfolding body_current_principal by (simp add: max_def)
qed

lemma run_bounds:
  assumes "0 \<le> r" "0 \<le> A" "P * r < M" "0 \<le> P"
  shows "0 \<le> current_principal (run M r A f v P k) \<and> current_principal (run M r A f v P k) \<le> P"
proof (induction k)
  case 0
  then show ?case using assms(4) by (simp add: initial_state_def)
next
  case (Suc k)
  then have lo: "0 \<le> current_principal (run M r A f v P k)"
    and hi: "current_principal (run M r A f v P k) \<le> P" by simp_all
  from body_decrease [OF assms(1-3) lo hi, where f = f and v = v] assms(3,4) hi
  have "current_principal (run M r A f v P (Suc k)) \<le> P" by (simp add: max_def split: if_splits)
  moreover have "0 \<le> current_principal (run M r A f v P (Suc k))"
    by (simp add: body_nonneg)
  ultimately show ?case by simp
qed

lemma run_decrease:
  assumes "0 \<le> r" "0 \<le> A" "P * r < M" "0 \<le> P"
  shows "current_principal (run M r A f v P (Suc k)) \<le>
           max (current_principal (run M r A f v P k) - (M - P * r)) 0"
  using body_decrease [OF assms(1-3), where s = "run M r A f v P k" and f = f and v = v]
    run_bounds [OF assms, where f = f and v = v and k = k] by simp

lemma run_antimono:
  assumes "0 \<le> r" "0 \<le> A" "P * r < M" "0 \<le> P" "i \<le> j"
  shows "current_principal (run M r A f v P j) \<le> current_principal (run M r A f v P i)"
proof -
  have step: "\<And>n. current_principal (run M r A f v P (Suc n)) \<le> current_principal (run M r A f v P n)"
  proof -
    fix n
    from run_decrease [OF assms(1-4), where f = f and v = v and k = n]
      run_bounds [OF assms(1-4), where f = f and v = v and k = n] assms(3)
    show "current_principal (run M r A f v P (Suc n)) \<le> current_principal (run M r A f v P n)"
      by (simp add: max_def split: if_splits)
  qed
  show ?thesis
    using assms(5) by (rule lift_Suc_antimono_le [of "\<lambda>n. current_principal (run M r A f v P n)", OF step])
qed

section \<open>The yearly cadence\<close>

lemma run_step_yearly:
  "current_principal (run M r A ''yearly'' v P (Suc i)) =
     max (current_principal (run M r A ''yearly'' v P i)
            - (M - current_principal (run M r A ''yearly'' v P i) * r)
            - (if (int i + 1) mod 12 = 0 then A else 0)) 0"
  by (simp only: funpow.simps o_apply body_current_principal run_prepaid_yearly)

section \<open>Termination\<close>

lemma run_upper:
  assumes "0 \<le> r" "0 \<le> A" "P * r < M" "0 \<le> P"
  shows "current_principal (run M r A f v P k) \<le> max (P - real k * (M - P * r)) 0"
proof (induction k)
  case 0
  then show ?case by (simp add: initial_state_def)
next
  case (Suc k)
  have "current_principal (run M r A f v P (Suc k)) \<le>
          max (current_principal (run M r A f v P k) - (M - P * r)) 0"
    by (rule run_decrease [OF assms])
  also have "\<dots> \<le> max (max (P - real k * (M - P * r)) 0 - (M - P * r)) 0"
    using Suc by (simp add: max_def)
  also have "\<dots> \<le> max (P - real (Suc k) * (M - P * r)) 0"
    using assms(3) by (simp add: max_def algebra_simps)
  finally show ?case .
qed

lemma run_stops:
  assumes "0 \<le> r" "0 \<le> A" "P * r < M" "0 \<le> P"
  shows "\<exists>k. k \<le> nat \<lceil>P / (M - P * r)\<rceil>
           \<and> \<not> current_principal (run M r A f v P k) > 0
           \<and> (\<forall>j<k. current_principal (run M r A f v P j) > 0)"
proof -
  let ?n = "nat \<lceil>P / (M - P * r)\<rceil>"
  let ?stop = "\<lambda>k. \<not> current_principal (run M r A f v P k) > 0"
  have d: "0 < M - P * r" using assms(3) by simp
  have "P / (M - P * r) \<le> real ?n" by linarith
  then have "P \<le> real ?n * (M - P * r)" using d by (simp add: pos_divide_le_eq)
  with run_upper [OF assms, where f = f and v = v and k = ?n] have n: "?stop ?n"
    by (simp add: max_def split: if_splits)
  have "(LEAST k. ?stop k) \<le> ?n" using n by (rule Least_le)
  moreover have "?stop (LEAST k. ?stop k)" using n by (rule LeastI)
  moreover have "\<forall>j<(LEAST k. ?stop k). current_principal (run M r A f v P j) > 0"
    using not_less_Least by blast
  ultimately show ?thesis by blast
qed

section \<open>Runs without prepayment\<close>

lemma prepaid_zero: "prepaid f 0 c l = 0"
  by (simp add: prepaid_def)

lemma run_unclamped:
  assumes "0 \<le> P" and "\<forall>j<k. 0 < unclamped P M r j"
  shows "current_principal (run M r 0 f v P k) = max (unclamped P M r k) 0
       \<and> (\<forall>j<k. current_principal (run M r 0 f v P j) > 0)"
  using assms(2)
proof (induction k)
  case 0
  then show ?case using assms(1) by (simp add: initial_state_def)
next
  case (Suc k)
  then have ih: "current_principal (run M r 0 f v P k) = max (unclamped P M r k) 0"
    and pos: "\<forall>j<k. current_principal (run M r 0 f v P j) > 0" by simp_all
  have uk: "0 < unclamped P M r k" using Suc.prems by simp
  then have cpk: "current_principal (run M r 0 f v P k) = unclamped P M r k"
    using ih by simp
  have "\<forall>j<Suc k. current_principal (run M r 0 f v P j) > 0"
    using pos cpk uk by (simp add: less_Suc_eq)
  moreover have "current_principal (run M r 0 f v P (Suc k)) = max (unclamped P M r (Suc k)) 0"
    by (simp add: body_current_principal prepaid_zero cpk)
  ultimately show ?case by simp
qed

lemma unclamped_zero_rate: "unclamped P M 0 k = P - real k * M"
  by (induction k) (simp_all add: algebra_simps)

section \<open>Calls that return and calls that do not\<close>

lemma run_grows:
  assumes "0 \<le> r" "0 \<le> A" "M + A \<le> P * r"
  shows "P \<le> current_principal (run M r A f v P k)"
proof (induction k)
  case 0
  then show ?case by (simp add: initial_state_def)
next
  case (Suc k)
  let ?c = "current_principal (run M r A f v P k)"
  have "P * r \<le> ?c * r" using Suc assms(1) by (rule mult_right_mono)
  moreover have "prepaid f A (month_count (run M r A f v P k) + 1)
                   (prepayment_month (run M r A f v P k)) \<le> A"
    using prepaid_bounds [OF assms(2)] by simp
  ultimately have "P \<le> ?c - (M - ?c * r)
      - prepaid f A (month_count (run M r A f v P k) + 1) (prepayment_month (run M r A f v P k))"
    using Suc assms(3) by linarith
  then show ?case by (simp add: body_current_principal)
qed

lemma calculate_diverges:
  assumes "0 < P" "0 \<le> a" "0 \<le> A" "M + A \<le> P * monthly_rate a"
  shows "calculate_mortgage_savings P M a A f v = None"
proof (rule calculate_NoneI, rule allI)
  fix k
  have "0 \<le> monthly_rate a" using assms(2) by (simp add: monthly_rate_def)
  from run_grows [OF this assms(3,4), where f = f and v = v and k = k] assms(1)
  show "0 < current_principal (run M (monthly_rate a) A f v P k)" by simp
qed

lemma calculate_returns:
  assumes "0 \<le> P" "0 \<le> a" "0 \<le> A" "P * monthly_rate a < M"
  shows "\<exists>res out. calculate_mortgage_savings P M a A f v = Some (res, out)
           \<and> res_total_months res \<le> \<lceil>P / (M - P * monthly_rate a)\<rceil>"
proof -
  have r: "0 \<le> monthly_rate a" using assms(2) by (simp add: monthly_rate_def)
  from run_stops [OF r assms(3,4,1), where f = f and v = v] obtain k where
    k: "k \<le> nat \<lceil>P / (M - P * monthly_rate a)\<rceil>"
    and stop: "\<not> current_principal (run M (monthly_rate a) A f v P k) > 0"
    and pos: "\<forall>j<k. current_principal (run M (monthly_rate a) A f v P j) > 0"
    by (elim conjE exE)
  have "0 \<le> P / (M - P * monthly_rate a)" using assms(1,4) by simp
  then have "0 \<le> \<lceil>P / (M - P * monthly_rate a)\<rceil>" by linarith
  with k have "int k \<le> \<lceil>P / (M - P * monthly_rate a)\<rceil>" by linarith
  with calculate_SomeI [OF stop pos] show ?thesis by simp
qed

lemma example_long_run:
  "calculate_mortgage_savings 12001 1 0 0 ''monthly'' False =
     Some (\<lparr>res_total_months = 12001,
            res_total_interest = total_interest (run 1 (monthly_rate 0) 0 ''monthly'' False 12001 12001),
            res_interest_saved =
              map_option (\<lambda>orig. orig - total_interest (run 1 (monthly_rate 0) 0 ''monthly'' False 12001 12001))
                (original_total_interest 12001 1 (monthly_rate 0)),
            res_history = history (run 1 (monthly_rate 0) 0 ''monthly'' False 12001 12001)\<rparr>,
           written (run 1 (monthly_rate 0) 0 ''monthly'' False 12001 12001))"
proof -
  have r: "monthly_rate 0 = 0" by (simp add: monthly_rate_def)
  have u: "\<forall>j<12001. 0 < unclamped 12001 1 0 j"
    by (simp add: unclamped_zero_rate)
  from run_unclamped [OF _ u, where f = "''monthly''" and v = False]
  have stop: "\<not> current_principal (run 1 (monthly_rate 0) 0 ''monthly'' False 12001 12001) > 0"
    and pos: "\<forall>j<12001. current_principal (run 1 (monthly_rate 0) 0 ''monthly'' False 12001 j) > 0"
    by (simp_all add: r unclamped_zero_rate)
  from calculate_SomeI [OF stop pos] show ?thesis by simp
qed

section \<open>The baseline against the loop\<close>

lemma ln_ratio_bound: "ln (1008 / 1003) / ln (101 / 100) < (1 / 2 :: real)"
proof -
  have "(1008 / 1003 :: real) ^ 2 < 101 / 100" by (simp add: power2_eq_square)
  then have "ln ((1008 / 1003 :: real) ^ 2) < ln (101 / 100)"
    by (subst ln_less_cancel_iff) simp_all
  then have "2 * ln (1008 / 1003 :: real) < ln (101 / 100)"
    by (simp only: ln_realpow of_nat_numeral)
  moreover have "0 < ln (101 / 100 :: real)" by (rule ln_gt_zero) simp
  ultimately show ?thesis by (simp add: pos_divide_less_eq)
qed

lemma example_one_month:
  "calculate_mortgage_savings 1000 2016 12 0 ''monthly'' False =
     Some (\<lparr>res_total_months = 1, res_total_interest = 10,
            res_interest_saved = Some (2016 * (ln (1008 / 1003) / ln (101 / 100)) - 1000 - 10),
            res_history = [\<lparr>month = 1, remaining_principal = 0, monthly_interest = 10\<rparr>]\<rparr>,
           [])"
  by (simp add: eval_defs)

lemma example_one_month_prepaid:
  "calculate_mortgage_savings 1000 2016 12 1 ''monthly'' False =
     Some (\<lparr>res_total_months = 1, res_total_interest = 10,
            res_interest_saved = Some (2016 * (ln (1008 / 1003) / ln (101 / 100)) - 1000 - 10),
            res_history = [\<lparr>month = 1, remaining_principal = 0, monthly_interest = 10\<rparr>]\<rparr>,
           [])"
  by (simp add: eval_defs)

lemma example_nper:
  "nper (monthly_rate 12) (- 2016) 1000 = Some (ln (1008 / 1003) / ln (101 / 100))"
  by (simp add: nper_def monthly_rate_def Let_def)

section \<open>Prepaying against not prepaying\<close>

lemma run_compare:
  assumes "0 \<le> r" "0 \<le> A"
  shows "current_principal (run M r A f v P k) \<le> current_principal (run M r 0 f v P k)"
proof (induction k)
  case 0
  then show ?case by simp
next
  case (Suc k)
  let ?c = "current_principal (run M r A f v P k)"
  let ?d = "current_principal (run M r 0 f v P k)"
  have "?c * r \<le> ?d * r" using Suc assms(1) by (rule mult_right_mono)
  moreover have "0 \<le> prepaid f A (month_count (run M r A f v P k) + 1)
                   (prepayment_month (run M r A f v P k))"
    using prepaid_bounds [OF assms(2)] by simp
  ultimately have "?c - (M - ?c * r)
      - prepaid f A (month_count (run M r A f v P k) + 1) (prepayment_month (run M r A f v P k))
      \<le> ?d - (M - ?d * r)"
    using Suc by linarith
  then show ?case by (simp add: body_current_principal prepaid_zero max_def)
qed

lemma prepaid_run_against_zero:
  assumes "0 \<le> r" "0 \<le> A" "0 \<le> P"
    and stopA: "\<forall>j<k. current_principal (run M r A f v P j) > 0"
    and stop0: "\<not> current_principal (run M r 0 f v P n) > 0"
  shows "k \<le> n"
    and "total_interest (run M r A f v P k) \<le> total_interest (run M r 0 f v P n)"
proof -
  show kn: "k \<le> n"
  proof (rule ccontr)
    assume "\<not> k \<le> n"
    then have "current_principal (run M r A f v P n) > 0" using stopA by simp
    with run_compare [OF assms(1,2), where M = M and f = f and v = v and P = P and k = n] stop0
    show False by simp
  qed
  have nonneg: "0 \<le> current_principal (run M r 0 f v P i)" for i
  proof (cases i)
    case 0
    then show ?thesis using assms(3) by (simp add: initial_state_def)
  next
    case (Suc m)
    then show ?thesis by (simp add: body_nonneg)
  qed
  have "total_interest (run M r A f v P k) = (\<Sum>i<k. current_principal (run M r A f v P i) * r)"
    by (rule run_total_interest)
  also have "\<dots> \<le> (\<Sum>i<k. current_principal (run M r 0 f v P i) * r)"
    by (intro sum_mono mult_right_mono run_compare assms)
  also have "\<dots> \<le> (\<Sum>i<n. current_principal (run M r 0 f v P i) * r)"
    using kn nonneg assms(1) by (intro sum_mono2) auto
  also have "\<dots> = total_interest (run M r 0 f v P n)"
    by (rule run_total_interest [symmetric])
  finally show "total_interest (run M r A f v P k) \<le> total_interest (run M r 0 f v P n)" .
qed

lemma example_two_months_prepaid:
  "calculate_mortgage_savings 1000 600 12 100 ''monthly'' True =
     Some (\<lparr>res_total_months = 2, res_total_interest = 131 / 10,
            res_interest_saved = Some (600 * (ln (60 / 59) / ln (101 / 100)) - 1000 - 131 / 10),
            res_history =
              [\<lparr>month = 1, remaining_principal = 310, monthly_interest = 10\<rparr>,
               \<lparr>month = 2, remaining_principal = 0, monthly_interest = 31 / 10\<rparr>]\<rparr>,
           [\<lparr>month = 1, remaining_principal = 310, monthly_interest = 10\<rparr>,
            \<lparr>month = 2, remaining_principal = 0, monthly_interest = 31 / 10\<rparr>])"
  by (simp add: eval_defs)

section \<open>A payment that does not cover the interest\<close>

lemma run_step_zero:
  "current_principal (run M r 0 f v P (Suc i)) =
     max (current_principal (run M r 0 f v P i)
            - (M - current_principal (run M r 0 f v P i) * r)) 0"
  by (simp add: body_current_principal prepaid_zero)

lemma run_never_decreases:
  assumes "0 \<le> r" "M \<le> P * r"
  shows "current_principal (run M r 0 f v P k) \<le> current_principal (run M r 0 f v P (Suc k))"
proof -
  let ?c = "current_principal (run M r 0 f v P k)"
  have "M + 0 \<le> P * r" using assms(2) by simp
  from run_grows [OF assms(1) _ this, where f = f and v = v and k = k]
  have "P \<le> ?c" by simp
  then have "P * r \<le> ?c * r" using assms(1) by (rule mult_right_mono)
  with assms(2) have "?c \<le> ?c - (M - ?c * r)" by linarith
  then show ?thesis by (simp only: run_step_zero)
qed

section \<open>The claims of the specification\<close>

text \<open>
  C1, as the spec states it, fails: the program has no check before the loop and no error
  value. At the spec's own input (principal 1,000,000, payment 100, rate 20 per cent, no
  prepayment) the call never returns; at the same input with a monthly prepayment of
  2,000,000 it returns an ordinary result after one month, whose \<open>interest_saved\<close> is
  not a finite number.
\<close>

theorem non_amortizing_counterexample:
  "(0::real) < 1000000 \<and> (100::real) \<le> 1000000 * monthly_rate 20
   \<and> calculate_mortgage_savings 1000000 100 20 0 ''monthly'' False = None
   \<and> calculate_mortgage_savings 1000000 100 20 2000000 ''monthly'' False =
       Some (\<lparr>res_total_months = 1, res_total_interest = 50000 / 3, res_interest_saved = None,
              res_history = [\<lparr>month = 1, remaining_principal = 0,
                               monthly_interest = 50000 / 3\<rparr>]\<rparr>, [])"
proof -
  have "calculate_mortgage_savings 1000000 100 20 0 ''monthly'' False = None"
    by (rule calculate_diverges) (simp_all add: monthly_rate_def)
  moreover have "calculate_mortgage_savings 1000000 100 20 2000000 ''monthly'' False =
       Some (\<lparr>res_total_months = 1, res_total_interest = 50000 / 3, res_interest_saved = None,
              res_history = [\<lparr>month = 1, remaining_principal = 0,
                               monthly_interest = 50000 / 3\<rparr>]\<rparr>, [])"
    by (simp add: eval_defs)
  ultimately show ?thesis by (simp add: monthly_rate_def)
qed

text \<open>
  C1, amended. The program makes no check before the loop and has no error value. When
  the principal and the payment are positive, the rate is not negative, nothing is
  prepaid (\<open>prepayment_amount = 0\<close>) and the first month's interest is at least the
  payment, the balance never decreases from one pass to the next and the call does not
  return. This covers the spec's input with no prepayment.
\<close>

theorem non_amortizing_never_returns:
  assumes "0 < initial_principal" and "0 < monthly_payment" and "0 \<le> annual_rate"
    and "monthly_payment \<le> initial_principal * monthly_rate annual_rate"
  shows "(\<forall>k. current_principal
               (run monthly_payment (monthly_rate annual_rate) 0 prepayment_freq verbose
                  initial_principal k)
             \<le> current_principal
               (run monthly_payment (monthly_rate annual_rate) 0 prepayment_freq verbose
                  initial_principal (Suc k)))
       \<and> calculate_mortgage_savings initial_principal monthly_payment annual_rate 0
           prepayment_freq verbose = None"
proof -
  have r: "0 \<le> monthly_rate annual_rate" using assms(3) by (simp add: monthly_rate_def)
  have "monthly_payment + 0 \<le> initial_principal * monthly_rate annual_rate"
    using assms(4) by simp
  from calculate_diverges [OF assms(1,3) _ this]
  have "calculate_mortgage_savings initial_principal monthly_payment annual_rate 0
           prepayment_freq verbose = None" by simp
  with run_never_decreases [OF r assms(4)] show ?thesis by blast
qed

theorem non_amortizing_never_returns_witness:
  "(0::real) < 1000000 \<and> (0::real) < 100 \<and> (0::real) \<le> 20
   \<and> (100::real) \<le> 1000000 * monthly_rate 20
   \<and> current_principal (run 100 (monthly_rate 20) 0 ''yearly'' True 1000000 0)
       \<le> current_principal (run 100 (monthly_rate 20) 0 ''yearly'' True 1000000 (Suc 0))
   \<and> calculate_mortgage_savings 1000000 100 20 0 ''yearly'' True = None"
proof -
  have h1: "(0::real) < 1000000" and h2: "(0::real) < 100" and h3: "(0::real) \<le> 20"
    by simp_all
  have h4: "(100::real) \<le> 1000000 * monthly_rate 20" by (simp add: monthly_rate_def)
  from non_amortizing_never_returns [OF h1 h2 h3 h4, of "''yearly''" True]
  have "current_principal (run 100 (monthly_rate 20) 0 ''yearly'' True 1000000 0)
       \<le> current_principal (run 100 (monthly_rate 20) 0 ''yearly'' True 1000000 (Suc 0))"
    and "calculate_mortgage_savings 1000000 100 20 0 ''yearly'' True = None"
    by blast+
  with h1 h2 h3 h4 show ?thesis by blast
qed

text \<open>
  C2, as the spec states it, fails: the program has no iteration ceiling. With principal
  12,001, payment 1, rate 0 and no prepayment (a valid input that satisfies the
  precondition) the call returns an ordinary result with \<open>total_months = 12001\<close>.
\<close>

theorem iteration_ceiling_counterexample:
  "(0::real) \<le> 12001 \<and> (0::real) < 1 \<and> (0::real) \<le> 0 \<and> 12001 * monthly_rate 0 < 1
   \<and> map_option (res_total_months \<circ> fst)
        (calculate_mortgage_savings 12001 1 0 0 ''monthly'' False) = Some 12001
   \<and> (12000::int) < 12001"
  by (simp add: example_long_run monthly_rate_def)

text \<open>
  C2, amended. The program has no iteration ceiling and no error value; a valid input can
  take more than 12,000 months. For every valid input (principal, rate and prepayment
  amount not negative, payment positive) that satisfies the amortizing-payment
  precondition: if \<open>n\<close> first-month principal parts cover the principal, that is
  \<open>initial_principal \<le> n * (monthly_payment - initial_principal * monthly_rate)\<close>, with
  \<open>n \<le> 12000\<close>, then the call returns a result after at most \<open>n + 1\<close> months. (In
  exact arithmetic \<open>n\<close> months suffice; the bound leaves one month for the residue
  that the rounding of repeated subtractions can leave.)
\<close>

theorem valid_input_returns:
  assumes "0 \<le> initial_principal" and "0 < monthly_payment" and "0 \<le> annual_rate"
    and "0 \<le> prepayment_amount"
    and "initial_principal * monthly_rate annual_rate < monthly_payment"
    and "n \<le> 12000"
    and "initial_principal
           \<le> real n * (monthly_payment - initial_principal * monthly_rate annual_rate)"
  shows "\<exists>res out. calculate_mortgage_savings initial_principal monthly_payment annual_rate
             prepayment_amount prepayment_freq verbose = Some (res, out)
           \<and> res_total_months res \<le> int n + 1"
proof -
  let ?d = "monthly_payment - initial_principal * monthly_rate annual_rate"
  have d: "0 < ?d" using assms(5) by simp
  from calculate_returns [OF assms(1,3,4,5), where f = prepayment_freq and v = verbose]
  obtain res out where
    c: "calculate_mortgage_savings initial_principal monthly_payment annual_rate
          prepayment_amount prepayment_freq verbose = Some (res, out)"
    and m: "res_total_months res \<le> \<lceil>initial_principal / ?d\<rceil>"
    by blast
  have "initial_principal / ?d \<le> real n" using assms(7) d by (simp add: pos_divide_le_eq)
  then have "\<lceil>initial_principal / ?d\<rceil> \<le> int n" by (simp add: ceiling_le_iff)
  with m have "res_total_months res \<le> int n + 1" by linarith
  with c show ?thesis by blast
qed

theorem valid_input_returns_witness:
  "(0::real) \<le> 1000 \<and> (0::real) < 600 \<and> (0::real) \<le> 12 \<and> (0::real) \<le> 0
   \<and> 1000 * monthly_rate 12 < 600
   \<and> (2::nat) \<le> 12000
   \<and> 1000 \<le> real 2 * (600 - 1000 * monthly_rate 12)
   \<and> calculate_mortgage_savings 1000 600 12 0 ''monthly'' True =
     Some (\<lparr>res_total_months = 2, res_total_interest = 141 / 10,
            res_interest_saved = Some (600 * (ln (60 / 59) / ln (101 / 100)) - 1000 - 141 / 10),
            res_history =
              [\<lparr>month = 1, remaining_principal = 410, monthly_interest = 10\<rparr>,
               \<lparr>month = 2, remaining_principal = 0, monthly_interest = 41 / 10\<rparr>]\<rparr>,
           [\<lparr>month = 1, remaining_principal = 410, monthly_interest = 10\<rparr>,
            \<lparr>month = 2, remaining_principal = 0, monthly_interest = 41 / 10\<rparr>])
   \<and> (2::int) \<le> int 2 + 1"
proof -
  have h1: "(0::real) \<le> 1000" and h2: "(0::real) < 600" and h3: "(0::real) \<le> 12"
    and h4: "(0::real) \<le> 0" and h6: "(2::nat) \<le> 12000" by simp_all
  have h5: "1000 * monthly_rate 12 < 600" by (simp add: monthly_rate_def)
  have h7: "1000 \<le> real 2 * (600 - 1000 * monthly_rate 12)" by (simp add: monthly_rate_def)
  from valid_input_returns [OF h1 h2 h3 h4 h5 h6 h7, of "''monthly''" True]
  have "(2::int) \<le> int 2 + 1"
    by (simp add: example_two_months)
  with h5 h7 example_two_months show ?thesis by simp
qed

text \<open>
  C3. For every call that returns, under the amortizing-payment precondition
  (\<open>initial_principal * monthly_rate < monthly_payment\<close>) and with a rate and a
  prepayment amount that are not negative: the \<open>remaining_principal\<close> values of the
  history never increase from one month to a later one, and none of them is negative.
\<close>

theorem remaining_principal_non_increasing:
  assumes "0 \<le> annual_rate" and "0 \<le> prepayment_amount"
    and "initial_principal * monthly_rate annual_rate < monthly_payment"
    and "calculate_mortgage_savings initial_principal monthly_payment annual_rate
           prepayment_amount prepayment_freq verbose = Some (res, out)"
  shows "sorted_wrt (\<ge>) (map remaining_principal (res_history res))
       \<and> list_all (\<lambda>entry. 0 \<le> remaining_principal entry) (res_history res)"
proof -
  let ?r = "monthly_rate annual_rate"
  let ?run = "run monthly_payment ?r prepayment_amount prepayment_freq verbose initial_principal"
  from calculate_SomeD [OF assms(4)] obtain k where
    pos: "\<forall>j<k. current_principal (?run j) > 0"
    and res: "res = \<lparr>res_total_months = int k,
            res_total_interest = total_interest (?run k),
            res_interest_saved =
              map_option (\<lambda>orig. orig - total_interest (?run k))
                (original_total_interest initial_principal monthly_payment ?r),
            res_history = history (?run k)\<rparr>"
    by (elim conjE exE)
  have r: "0 \<le> ?r" using assms(1) by (simp add: monthly_rate_def)
  have rp: "map remaining_principal (res_history res) =
              map (\<lambda>i. current_principal (?run (Suc i))) [0..<k]"
    by (simp add: res run_history o_def)
  have nonneg: "list_all (\<lambda>entry. 0 \<le> remaining_principal entry) (res_history res)"
    by (simp add: res run_history list_all_iff body_nonneg)
  have sorted: "sorted_wrt (\<ge>) (map remaining_principal (res_history res))"
  proof (cases k)
    case 0
    then show ?thesis by (simp add: rp)
  next
    case (Suc n)
    with pos have "current_principal (?run 0) > 0" by blast
    then have P: "0 \<le> initial_principal" by (simp add: initial_state_def)
    show ?thesis
      unfolding rp sorted_wrt_iff_nth_less
    proof (intro allI impI)
      fix i j assume "i < j" and "j < length (map (\<lambda>i. current_principal (?run (Suc i))) [0..<k])"
      then have "i < k" "j < k" "Suc i \<le> Suc j" by simp_all
      with run_antimono [OF r assms(2,3) P, where i = "Suc i" and j = "Suc j"
          and f = prepayment_freq and v = verbose]
      show "map (\<lambda>i. current_principal (?run (Suc i))) [0..<k] ! j
              \<le> map (\<lambda>i. current_principal (?run (Suc i))) [0..<k] ! i"
        by simp
    qed
  qed
  from sorted nonneg show ?thesis by simp
qed

theorem remaining_principal_non_increasing_witness:
  "(0::real) \<le> 12 \<and> (0::real) \<le> 0 \<and> 1000 * monthly_rate 12 < 600
   \<and> calculate_mortgage_savings 1000 600 12 0 ''monthly'' True =
     Some (\<lparr>res_total_months = 2, res_total_interest = 141 / 10,
            res_interest_saved = Some (600 * (ln (60 / 59) / ln (101 / 100)) - 1000 - 141 / 10),
            res_history =
              [\<lparr>month = 1, remaining_principal = 410, monthly_interest = 10\<rparr>,
               \<lparr>month = 2, remaining_principal = 0, monthly_interest = 41 / 10\<rparr>]\<rparr>,
           [\<lparr>month = 1, remaining_principal = 410, monthly_interest = 10\<rparr>,
            \<lparr>month = 2, remaining_principal = 0, monthly_interest = 41 / 10\<rparr>])
   \<and> sorted_wrt (\<ge>) [410, 0 :: real]
   \<and> list_all (\<lambda>entry. 0 \<le> remaining_principal entry)
         [\<lparr>month = 1, remaining_principal = 410, monthly_interest = 10\<rparr>,
          \<lparr>month = 2, remaining_principal = 0, monthly_interest = 41 / 10\<rparr>]"
proof -
  have h1: "(0::real) \<le> 12" and h2: "(0::real) \<le> 0" by simp_all
  have h3: "1000 * monthly_rate 12 < 600" by (simp add: monthly_rate_def)
  show ?thesis
    using remaining_principal_non_increasing [OF h1 h2 h3 example_two_months]
      example_two_months h3
    by simp
qed

text \<open>
  C4. For every call with \<open>prepayment_freq = 'yearly'\<close> that returns: the entries of
  the history are numbered 1, 2, 3, ..., and the \<open>remaining_principal\<close> of month
  \<open>n\<close> is the balance at the start of the month, less the scheduled principal part,
  less \<open>prepayment_amount\<close> exactly when \<open>n\<close> is a multiple of 12, floored at
  zero. So the prepayment is taken in months 12, 24, 36, ... and in no other month.
\<close>

theorem yearly_prepayment_months:
  assumes "calculate_mortgage_savings initial_principal monthly_payment annual_rate
             prepayment_amount ''yearly'' verbose = Some (res, out)"
  shows "map month (res_history res) = [1..int (length (res_history res))]
       \<and> map remaining_principal (res_history res) =
           map (\<lambda>(n, balance).
                  max (balance - (monthly_payment - balance * monthly_rate annual_rate)
                         - (if n mod 12 = 0 then prepayment_amount else 0)) 0)
             (zip [1..int (length (res_history res))]
                (take (length (res_history res))
                   (initial_principal # map remaining_principal (res_history res))))"
proof -
  let ?r = "monthly_rate annual_rate"
  let ?run = "run monthly_payment ?r prepayment_amount ''yearly'' verbose initial_principal"
  from calculate_SomeD [OF assms] obtain k where
    res: "res = \<lparr>res_total_months = int k,
            res_total_interest = total_interest (?run k),
            res_interest_saved =
              map_option (\<lambda>orig. orig - total_interest (?run k))
                (original_total_interest initial_principal monthly_payment ?r),
            res_history = history (?run k)\<rparr>"
    by (elim conjE exE)
  have h: "res_history res = history (?run k)" by (simp add: res)
  have len: "length (history (?run k)) = k" by (simp add: run_history)
  have rp: "map remaining_principal (history (?run k)) =
              map (\<lambda>i. current_principal (?run (Suc i))) [0..<k]"
    by (simp add: run_history o_def)
  have mo: "map month (history (?run k)) = map (\<lambda>i. int i + 1) [0..<k]"
    by (simp add: run_history o_def)
  have cp0: "current_principal (initial_state initial_principal) = initial_principal"
    by (simp add: initial_state_def)
  have "take k (initial_principal # map (\<lambda>i. current_principal (?run (Suc i))) [0..<k]) =
          map (\<lambda>i. current_principal (?run i)) [0..<k]"
    using take_shifted [of k "\<lambda>i. current_principal (?run i)"] by (simp add: cp0)
  then have start: "take k (initial_principal # map remaining_principal (history (?run k))) =
                 map (\<lambda>i. current_principal (?run i)) [0..<k]"
    by (simp only: rp)
  have months: "map month (res_history res) = [1..int (length (res_history res))]"
    unfolding h len mo by (rule nth_equalityI) simp_all
  have balances: "map remaining_principal (res_history res) =
           map (\<lambda>(n, balance).
                  max (balance - (monthly_payment - balance * ?r)
                         - (if n mod 12 = 0 then prepayment_amount else 0)) 0)
             (zip [1..int (length (res_history res))]
                (take (length (res_history res))
                   (initial_principal # map remaining_principal (res_history res))))"
    unfolding h len start unfolding rp
  proof (rule nth_equalityI)
    show "length (map (\<lambda>i. current_principal (?run (Suc i))) [0..<k]) =
          length (map (\<lambda>(n, balance).
                  max (balance - (monthly_payment - balance * ?r)
                         - (if n mod 12 = 0 then prepayment_amount else 0)) 0)
             (zip [1..int k] (map (\<lambda>i. current_principal (?run i)) [0..<k])))"
      by simp
  next
    fix i assume "i < length (map (\<lambda>i. current_principal (?run (Suc i))) [0..<k])"
    then have i: "i < k" by simp
    then have "map (\<lambda>(n, balance).
                  max (balance - (monthly_payment - balance * ?r)
                         - (if n mod 12 = 0 then prepayment_amount else 0)) 0)
             (zip [1..int k] (map (\<lambda>i. current_principal (?run i)) [0..<k])) ! i =
          max (current_principal (?run i) - (monthly_payment - current_principal (?run i) * ?r)
                 - (if (int i + 1) mod 12 = 0 then prepayment_amount else 0)) 0"
      by (simp add: add.commute)
    also have "\<dots> = current_principal (?run (Suc i))"
      by (simp only: run_step_yearly)
    finally show "map (\<lambda>i. current_principal (?run (Suc i))) [0..<k] ! i =
          map (\<lambda>(n, balance).
                  max (balance - (monthly_payment - balance * ?r)
                         - (if n mod 12 = 0 then prepayment_amount else 0)) 0)
             (zip [1..int k] (map (\<lambda>i. current_principal (?run i)) [0..<k])) ! i"
      using i by simp
  qed
  from months balances show ?thesis by simp
qed

theorem yearly_prepayment_months_witness:
  "calculate_mortgage_savings 130 10 0 5 ''yearly'' False =
     Some (\<lparr>res_total_months = 13, res_total_interest = 0, res_interest_saved = Some 0,
            res_history =
              [\<lparr>month = 1, remaining_principal = 120, monthly_interest = 0\<rparr>,
               \<lparr>month = 2, remaining_principal = 110, monthly_interest = 0\<rparr>,
               \<lparr>month = 3, remaining_principal = 100, monthly_interest = 0\<rparr>,
               \<lparr>month = 4, remaining_principal = 90, monthly_interest = 0\<rparr>,
               \<lparr>month = 5, remaining_principal = 80, monthly_interest = 0\<rparr>,
               \<lparr>month = 6, remaining_principal = 70, monthly_interest = 0\<rparr>,
               \<lparr>month = 7, remaining_principal = 60, monthly_interest = 0\<rparr>,
               \<lparr>month = 8, remaining_principal = 50, monthly_interest = 0\<rparr>,
               \<lparr>month = 9, remaining_principal = 40, monthly_interest = 0\<rparr>,
               \<lparr>month = 10, remaining_principal = 30, monthly_interest = 0\<rparr>,
               \<lparr>month = 11, remaining_principal = 20, monthly_interest = 0\<rparr>,
               \<lparr>month = 12, remaining_principal = 5, monthly_interest = 0\<rparr>,
               \<lparr>month = 13, remaining_principal = 0, monthly_interest = 0\<rparr>]\<rparr>, [])
   \<and> [120, 110, 100, 90, 80, 70, 60, 50, 40, 30, 20, 5, 0 :: real] =
       map (\<lambda>(n, balance).
              max (balance - (10 - balance * monthly_rate 0) - (if n mod 12 = 0 then 5 else 0)) 0)
         (zip [1..13] [130, 120, 110, 100, 90, 80, 70, 60, 50, 40, 30, 20, 5])"
  using yearly_prepayment_months [OF example_yearly] example_yearly
  by (simp add: monthly_rate_def upto_rec1)

text \<open>
  C5, as the spec states it, fails. With principal 1,000, payment 2,016, rate 12 per cent
  and a monthly prepayment of 1 the call returns \<open>total_months = 1\<close>, more than the
  analytic baseline period (less than half a month), and an \<open>interest_saved\<close> below
  \<open>-2\<close>.
\<close>

theorem savings_sign_counterexample:
  "(0::real) \<le> 1000 \<and> (0::real) < 2016 \<and> (0::real) \<le> 12 \<and> (0::real) < 1
   \<and> 1000 * monthly_rate 12 < 2016
   \<and> calculate_mortgage_savings 1000 2016 12 1 ''monthly'' False =
     Some (\<lparr>res_total_months = 1, res_total_interest = 10,
            res_interest_saved = Some (2016 * (ln (1008 / 1003) / ln (101 / 100)) - 1000 - 10),
            res_history = [\<lparr>month = 1, remaining_principal = 0, monthly_interest = 10\<rparr>]\<rparr>,
           [])
   \<and> 2016 * (ln (1008 / 1003) / ln (101 / 100)) - 1000 - 10 < (- 2 :: real)
   \<and> nper (monthly_rate 12) (- 2016) 1000 = Some (ln (1008 / 1003) / ln (101 / 100))
   \<and> ln (1008 / 1003) / ln (101 / 100) < (1::real)"
proof -
  have "2016 * (ln (1008 / 1003) / ln (101 / 100)) - 1000 - 10 < (- 2 :: real)"
    using ln_ratio_bound by linarith
  moreover have "ln (1008 / 1003) / ln (101 / 100) < (1::real)"
    using ln_ratio_bound by linarith
  moreover have "1000 * monthly_rate 12 < 2016" by (simp add: monthly_rate_def)
  ultimately show ?thesis using example_one_month_prepaid example_nper by simp
qed

text \<open>
  C5, amended. For every valid input that satisfies the precondition, with a positive
  prepayment amount: if the call returns, and the same call with
  \<open>prepayment_amount = 0\<close> returns too, then \<open>total_months\<close> and \<open>total_interest\<close>
  are at most those of the call without prepayment, and \<open>interest_saved\<close> is at least
  that of the call without prepayment (when that is a finite number). Nothing ties
  \<open>interest_saved\<close> to zero or \<open>total_months\<close> to the analytic baseline period.
\<close>

theorem prepayment_never_lengthens:
  assumes "0 \<le> initial_principal" and "0 < monthly_payment" and "0 \<le> annual_rate"
    and "0 < prepayment_amount"
    and "initial_principal * monthly_rate annual_rate < monthly_payment"
    and "calculate_mortgage_savings initial_principal monthly_payment annual_rate
           prepayment_amount prepayment_freq verbose = Some (res, out)"
    and "calculate_mortgage_savings initial_principal monthly_payment annual_rate 0
           prepayment_freq verbose = Some (res0, out0)"
    and "res_interest_saved res0 = Some saved0"
  shows "res_total_months res \<le> res_total_months res0
       \<and> res_total_interest res \<le> res_total_interest res0
       \<and> (\<exists>saved. res_interest_saved res = Some saved \<and> saved0 \<le> saved)"
proof -
  let ?r = "monthly_rate annual_rate"
  let ?P = initial_principal and ?M = monthly_payment and ?A = prepayment_amount
  let ?f = prepayment_freq and ?v = verbose
  have r: "0 \<le> ?r" using assms(3) by (simp add: monthly_rate_def)
  have A: "0 \<le> ?A" using assms(4) by simp
  from calculate_SomeD [OF assms(6)] obtain k where
    pos: "\<forall>j<k. current_principal (run ?M ?r ?A ?f ?v ?P j) > 0"
    and res: "res = \<lparr>res_total_months = int k,
            res_total_interest = total_interest (run ?M ?r ?A ?f ?v ?P k),
            res_interest_saved =
              map_option (\<lambda>orig. orig - total_interest (run ?M ?r ?A ?f ?v ?P k))
                (original_total_interest ?P ?M ?r),
            res_history = history (run ?M ?r ?A ?f ?v ?P k)\<rparr>"
    by (elim conjE exE)
  from calculate_SomeD [OF assms(7)] obtain n where
    stop0: "\<not> current_principal (run ?M ?r 0 ?f ?v ?P n) > 0"
    and res0: "res0 = \<lparr>res_total_months = int n,
            res_total_interest = total_interest (run ?M ?r 0 ?f ?v ?P n),
            res_interest_saved =
              map_option (\<lambda>orig. orig - total_interest (run ?M ?r 0 ?f ?v ?P n))
                (original_total_interest ?P ?M ?r),
            res_history = history (run ?M ?r 0 ?f ?v ?P n)\<rparr>"
    by (elim conjE exE)
  note cmp = prepaid_run_against_zero [OF r A assms(1) pos stop0]
  have months: "res_total_months res \<le> res_total_months res0"
    using cmp(1) by (simp add: res res0)
  have interest: "res_total_interest res \<le> res_total_interest res0"
    using cmp(2) by (simp add: res res0)
  from assms(8) obtain orig where
    orig: "original_total_interest ?P ?M ?r = Some orig"
    and s0: "saved0 = orig - res_total_interest res0"
    by (auto simp: res0)
  have s: "res_interest_saved res = Some (orig - res_total_interest res)"
    by (simp add: res orig)
  have "saved0 \<le> orig - res_total_interest res" using s0 interest by simp
  with months interest s show ?thesis by blast
qed

theorem prepayment_never_lengthens_witness:
  "(0::real) \<le> 1000 \<and> (0::real) < 600 \<and> (0::real) \<le> 12 \<and> (0::real) < 100
   \<and> 1000 * monthly_rate 12 < 600
   \<and> calculate_mortgage_savings 1000 600 12 100 ''monthly'' True =
     Some (\<lparr>res_total_months = 2, res_total_interest = 131 / 10,
            res_interest_saved = Some (600 * (ln (60 / 59) / ln (101 / 100)) - 1000 - 131 / 10),
            res_history =
              [\<lparr>month = 1, remaining_principal = 310, monthly_interest = 10\<rparr>,
               \<lparr>month = 2, remaining_principal = 0, monthly_interest = 31 / 10\<rparr>]\<rparr>,
           [\<lparr>month = 1, remaining_principal = 310, monthly_interest = 10\<rparr>,
            \<lparr>month = 2, remaining_principal = 0, monthly_interest = 31 / 10\<rparr>])
   \<and> calculate_mortgage_savings 1000 600 12 0 ''monthly'' True =
     Some (\<lparr>res_total_months = 2, res_total_interest = 141 / 10,
            res_interest_saved = Some (600 * (ln (60 / 59) / ln (101 / 100)) - 1000 - 141 / 10),
            res_history =
              [\<lparr>month = 1, remaining_principal = 410, monthly_interest = 10\<rparr>,
               \<lparr>month = 2, remaining_principal = 0, monthly_interest = 41 / 10\<rparr>]\<rparr>,
           [\<lparr>month = 1, remaining_principal = 410, monthly_interest = 10\<rparr>,
            \<lparr>month = 2, remaining_principal = 0, monthly_interest = 41 / 10\<rparr>])
   \<and> (2::int) \<le> 2
   \<and> (131 / 10 :: real) \<le> 141 / 10
   \<and> 600 * (ln (60 / 59) / ln (101 / 100)) - 1000 - 141 / 10
       \<le> 600 * (ln (60 / 59) / ln (101 / 100)) - 1000 - (131 / 10 :: real)"
proof -
  have h1: "(0::real) \<le> 1000" and h2: "(0::real) < 600" and h3: "(0::real) \<le> 12"
    and h4: "(0::real) < 100" by simp_all
  have h5: "1000 * monthly_rate 12 < 600" by (simp add: monthly_rate_def)
  have h8: "res_interest_saved
              \<lparr>res_total_months = 2, res_total_interest = 141 / 10,
               res_interest_saved = Some (600 * (ln (60 / 59) / ln (101 / 100)) - 1000 - 141 / 10),
               res_history =
                 [\<lparr>month = 1, remaining_principal = 410, monthly_interest = 10\<rparr>,
                  \<lparr>month = 2, remaining_principal = 0, monthly_interest = 41 / 10\<rparr>]\<rparr>
            = Some (600 * (ln (60 / 59) / ln (101 / 100)) - 1000 - 141 / 10)"
    by simp
  from prepayment_never_lengthens
         [OF h1 h2 h3 h4 h5 example_two_months_prepaid example_two_months h8]
  have "600 * (ln (60 / 59) / ln (101 / 100)) - 1000 - 141 / 10
       \<le> 600 * (ln (60 / 59) / ln (101 / 100)) - 1000 - (131 / 10 :: real)"
    by simp
  with h5 example_two_months_prepaid example_two_months show ?thesis by simp
qed

text \<open>
  C6, as the spec states it, fails. With principal 1,000, payment 2,016, rate 12 per cent
  and no prepayment (valid, and the precondition holds) the loop runs one month and
  accumulates \<open>total_interest = 10\<close>, while the analytic baseline interest, computed
  from a baseline period of less than half a month, is below 8: the two differ by more
  than 2, and \<open>interest_saved\<close> is below \<open>-2\<close> although nothing was prepaid.
\<close>

theorem zero_prepayment_counterexample:
  "(0::real) \<le> 1000 \<and> (0::real) < 2016 \<and> (0::real) \<le> 12 \<and> 1000 * monthly_rate 12 < 2016
   \<and> calculate_mortgage_savings 1000 2016 12 0 ''monthly'' False =
     Some (\<lparr>res_total_months = 1, res_total_interest = 10,
            res_interest_saved = Some (2016 * (ln (1008 / 1003) / ln (101 / 100)) - 1000 - 10),
            res_history = [\<lparr>month = 1, remaining_principal = 0, monthly_interest = 10\<rparr>]\<rparr>,
           [])
   \<and> original_total_interest 1000 2016 (monthly_rate 12) =
       Some (2016 * (ln (1008 / 1003) / ln (101 / 100)) - 1000)
   \<and> 2016 * (ln (1008 / 1003) / ln (101 / 100)) - 1000 + 2 < (10::real)"
proof -
  have "2016 * (ln (1008 / 1003) / ln (101 / 100)) - 1000 + 2 < (10::real)"
    using ln_ratio_bound by linarith
  moreover have "original_total_interest 1000 2016 (monthly_rate 12) =
       Some (2016 * (ln (1008 / 1003) / ln (101 / 100)) - 1000)"
    by (simp add: original_total_interest_def example_nper)
  moreover have "1000 * monthly_rate 12 < 2016" by (simp add: monthly_rate_def)
  ultimately show ?thesis using example_one_month by simp
qed

text \<open>
  C6, amended. For every call with \<open>prepayment_amount = 0\<close> that returns, whatever the
  frequency: the history is the month-by-month schedule without prepayments (each
  \<open>remaining_principal\<close> is the balance at the start of the month less the scheduled
  principal part, floored at zero), \<open>total_months\<close> is its length, \<open>total_interest\<close>
  is the sum of the interest on the start balances, and \<open>interest_saved\<close> is the
  analytic baseline interest minus this sum. The loop's totals are those of this schedule,
  not of the analytic formula.
\<close>

theorem zero_prepayment_schedule:
  assumes "calculate_mortgage_savings initial_principal monthly_payment annual_rate 0
             prepayment_freq verbose = Some (res, out)"
  shows "map remaining_principal (res_history res) =
           map (\<lambda>balance. max (balance - (monthly_payment - balance * monthly_rate annual_rate)) 0)
             (take (length (res_history res))
                (initial_principal # map remaining_principal (res_history res)))
       \<and> res_total_months res = int (length (res_history res))
       \<and> res_total_interest res =
           sum_list (map (\<lambda>balance. balance * monthly_rate annual_rate)
             (take (length (res_history res))
                (initial_principal # map remaining_principal (res_history res))))
       \<and> res_interest_saved res =
           map_option (\<lambda>baseline. baseline - res_total_interest res)
             (original_total_interest initial_principal monthly_payment
                (monthly_rate annual_rate))"
proof -
  let ?r = "monthly_rate annual_rate"
  let ?run = "run monthly_payment ?r 0 prepayment_freq verbose initial_principal"
  from calculate_SomeD [OF assms] obtain k where
    res: "res = \<lparr>res_total_months = int k,
            res_total_interest = total_interest (?run k),
            res_interest_saved =
              map_option (\<lambda>orig. orig - total_interest (?run k))
                (original_total_interest initial_principal monthly_payment ?r),
            res_history = history (?run k)\<rparr>"
    by (elim conjE exE)
  have h: "res_history res = history (?run k)" by (simp add: res)
  have len: "length (history (?run k)) = k" by (simp add: run_history)
  have rp: "map remaining_principal (history (?run k)) =
              map (\<lambda>i. current_principal (?run (Suc i))) [0..<k]"
    by (simp add: run_history o_def)
  have cp0: "current_principal (initial_state initial_principal) = initial_principal"
    by (simp add: initial_state_def)
  have "take k (initial_principal # map (\<lambda>i. current_principal (?run (Suc i))) [0..<k]) =
          map (\<lambda>i. current_principal (?run i)) [0..<k]"
    using take_shifted [of k "\<lambda>i. current_principal (?run i)"] by (simp add: cp0)
  then have start: "take k (initial_principal # map remaining_principal (history (?run k))) =
                 map (\<lambda>i. current_principal (?run i)) [0..<k]"
    by (simp only: rp)
  have step: "map (\<lambda>i. current_principal (?run (Suc i))) [0..<k] =
          map (\<lambda>balance. max (balance - (monthly_payment - balance * ?r)) 0)
            (map (\<lambda>i. current_principal (?run i)) [0..<k])"
    by (simp only: map_map o_def run_step_zero)
  have balances: "map remaining_principal (res_history res) =
           map (\<lambda>balance. max (balance - (monthly_payment - balance * ?r)) 0)
             (take (length (res_history res))
                (initial_principal # map remaining_principal (res_history res)))"
    unfolding h len start by (simp only: rp step)
  have months: "res_total_months res = int (length (res_history res))"
    by (simp add: res run_history)
  have "res_total_interest res = (\<Sum>i<k. current_principal (?run i) * ?r)"
    by (simp add: res run_total_interest)
  also have "\<dots> = sum_list (map (\<lambda>balance. balance * ?r)
                      (map (\<lambda>i. current_principal (?run i)) [0..<k]))"
    by (simp add: o_def interv_sum_list_conv_sum_set_nat atLeast0LessThan)
  finally have interest: "res_total_interest res =
           sum_list (map (\<lambda>balance. balance * ?r)
             (take (length (res_history res))
                (initial_principal # map remaining_principal (res_history res))))"
    unfolding h len start .
  have saved: "res_interest_saved res =
           map_option (\<lambda>baseline. baseline - res_total_interest res)
             (original_total_interest initial_principal monthly_payment ?r)"
    by (simp add: res)
  from balances months interest saved show ?thesis by simp
qed

theorem zero_prepayment_schedule_witness:
  "calculate_mortgage_savings 1000 600 12 0 ''monthly'' True =
     Some (\<lparr>res_total_months = 2, res_total_interest = 141 / 10,
            res_interest_saved = Some (600 * (ln (60 / 59) / ln (101 / 100)) - 1000 - 141 / 10),
            res_history =
              [\<lparr>month = 1, remaining_principal = 410, monthly_interest = 10\<rparr>,
               \<lparr>month = 2, remaining_principal = 0, monthly_interest = 41 / 10\<rparr>]\<rparr>,
           [\<lparr>month = 1, remaining_principal = 410, monthly_interest = 10\<rparr>,
            \<lparr>month = 2, remaining_principal = 0, monthly_interest = 41 / 10\<rparr>])
   \<and> [410, 0 :: real] =
       map (\<lambda>balance. max (balance - (600 - balance * monthly_rate 12)) 0) [1000, 410]
   \<and> (2::int) = int (length [1000, 410 :: real])
   \<and> (141 / 10 :: real) = sum_list (map (\<lambda>balance. balance * monthly_rate 12) [1000, 410])
   \<and> Some (600 * (ln (60 / 59) / ln (101 / 100)) - 1000 - 141 / 10) =
       map_option (\<lambda>baseline. baseline - 141 / 10)
         (original_total_interest 1000 600 (monthly_rate 12))"
  using zero_prepayment_schedule [OF example_two_months] example_two_months
  by simp

text \<open>
  C7. With \<open>initial_principal = 0\<close>, a positive payment and a rate that is not
  negative, the call returns without entering the loop: \<open>total_months = 0\<close>,
  \<open>total_interest = 0\<close>, \<open>interest_saved = 0\<close> and an empty history (and nothing is
  written). The prepayment amount, the frequency and the verbose flag are arbitrary.
\<close>

theorem zero_principal_result:
  assumes "0 < monthly_payment" and "0 \<le> annual_rate"
  shows "calculate_mortgage_savings 0 monthly_payment annual_rate prepayment_amount
           prepayment_freq verbose =
         Some (\<lparr>res_total_months = 0, res_total_interest = 0, res_interest_saved = Some 0,
                res_history = []\<rparr>, [])"
proof -
  have r: "0 \<le> monthly_rate annual_rate" using assms(2) by (simp add: monthly_rate_def)
  have loop: "while_loop monthly_payment (monthly_rate annual_rate) prepayment_amount
                prepayment_freq verbose (initial_state 0) = Some (initial_state 0)"
    by (subst while_loop.simps) (simp add: initial_state_def)
  have orig: "original_total_interest 0 monthly_payment (monthly_rate annual_rate) = Some 0"
    by (simp add: original_total_interest_def nper_zero_principal [OF assms(1) r])
  show ?thesis
    by (simp add: calculate_mortgage_savings_def Let_def loop orig) (simp add: initial_state_def)
qed

theorem zero_principal_result_witness:
  "(0::real) < 625126 / 100 \<and> (0::real) \<le> 33 / 10 \<and>
   calculate_mortgage_savings 0 (625126 / 100) (33 / 10) 1000 ''monthly'' True =
     Some (\<lparr>res_total_months = 0, res_total_interest = 0, res_interest_saved = Some 0,
            res_history = []\<rparr>, [])"
proof -
  have h1: "(0::real) < 625126 / 100" by simp
  have h2: "(0::real) \<le> 33 / 10" by simp
  show ?thesis
    using h1 h2 zero_principal_result [OF h1 h2, of 1000 "''monthly''" True] by simp
qed

text \<open>
  C8. For every call that returns, with a rate that is not negative: the
  \<open>monthly_interest\<close> of each entry of the history is the balance at the start of that
  month times the monthly rate, and it is not negative. The balance at the start of the
  first month is \<open>initial_principal\<close>; at the start of a later month it is the
  \<open>remaining_principal\<close> of the entry before.
\<close>

theorem monthly_interest_of_start_balance:
  assumes "0 \<le> annual_rate"
    and "calculate_mortgage_savings initial_principal monthly_payment annual_rate
           prepayment_amount prepayment_freq verbose = Some (res, out)"
  shows "map monthly_interest (res_history res) =
           map (\<lambda>balance. balance * monthly_rate annual_rate)
             (take (length (res_history res))
                (initial_principal # map remaining_principal (res_history res)))
       \<and> list_all (\<lambda>entry. 0 \<le> monthly_interest entry) (res_history res)"
proof -
  let ?r = "monthly_rate annual_rate"
  let ?run = "run monthly_payment ?r prepayment_amount prepayment_freq verbose initial_principal"
  from calculate_SomeD [OF assms(2)] obtain k where
    pos: "\<forall>j<k. current_principal (?run j) > 0"
    and res: "res = \<lparr>res_total_months = int k,
            res_total_interest = total_interest (?run k),
            res_interest_saved =
              map_option (\<lambda>orig. orig - total_interest (?run k))
                (original_total_interest initial_principal monthly_payment ?r),
            res_history = history (?run k)\<rparr>"
    by (elim conjE exE)
  have r: "0 \<le> ?r" using assms(1) by (simp add: monthly_rate_def)
  have h: "res_history res = history (?run k)" by (simp add: res)
  have mi: "map monthly_interest (history (?run k)) =
              map (\<lambda>i. current_principal (?run i) * ?r) [0..<k]"
    by (simp add: run_history o_def)
  have rp: "map remaining_principal (history (?run k)) =
              map (\<lambda>i. current_principal (?run (Suc i))) [0..<k]"
    by (simp add: run_history o_def)
  have len: "length (history (?run k)) = k" by (simp add: run_history)
  have cp0: "current_principal (initial_state initial_principal) = initial_principal"
    by (simp add: initial_state_def)
  have "take k (initial_principal # map (\<lambda>i. current_principal (?run (Suc i))) [0..<k]) =
          map (\<lambda>i. current_principal (?run i)) [0..<k]"
    using take_shifted [of k "\<lambda>i. current_principal (?run i)"] by (simp add: cp0)
  then have start: "take k (initial_principal # map remaining_principal (history (?run k))) =
                 map (\<lambda>i. current_principal (?run i)) [0..<k]"
    by (simp only: rp)
  have eq: "map monthly_interest (res_history res) =
           map (\<lambda>balance. balance * ?r)
             (take (length (res_history res))
                (initial_principal # map remaining_principal (res_history res)))"
    unfolding h by (simp only: mi len start map_map o_def)
  have nonneg: "list_all (\<lambda>entry. 0 \<le> monthly_interest entry) (res_history res)"
    unfolding h using pos r by (simp add: run_history list_all_iff less_imp_le)
  from eq nonneg show ?thesis by simp
qed

theorem monthly_interest_of_start_balance_witness:
  "(0::real) \<le> 12
   \<and> calculate_mortgage_savings 1000 600 12 0 ''monthly'' True =
     Some (\<lparr>res_total_months = 2, res_total_interest = 141 / 10,
            res_interest_saved = Some (600 * (ln (60 / 59) / ln (101 / 100)) - 1000 - 141 / 10),
            res_history =
              [\<lparr>month = 1, remaining_principal = 410, monthly_interest = 10\<rparr>,
               \<lparr>month = 2, remaining_principal = 0, monthly_interest = 41 / 10\<rparr>]\<rparr>,
           [\<lparr>month = 1, remaining_principal = 410, monthly_interest = 10\<rparr>,
            \<lparr>month = 2, remaining_principal = 0, monthly_interest = 41 / 10\<rparr>])
   \<and> [10, 41 / 10] = map (\<lambda>balance. balance * monthly_rate 12) [1000, 410 :: real]
   \<and> list_all (\<lambda>entry. 0 \<le> monthly_interest entry)
         [\<lparr>month = 1, remaining_principal = 410, monthly_interest = 10\<rparr>,
          \<lparr>month = 2, remaining_principal = 0, monthly_interest = 41 / 10\<rparr>]"
proof -
  have h: "(0::real) \<le> 12" by simp
  show ?thesis
    using monthly_interest_of_start_balance [OF h example_two_months] example_two_months
    by simp
qed

text \<open>
  C9. For every call that returns: \<open>total_months\<close> is the number of entries of the
  history, \<open>total_interest\<close> is the sum of their \<open>monthly_interest\<close>, and
  \<open>interest_saved\<close> is the baseline \<open>monthly_payment * periods - initial_principal\<close>
  minus \<open>total_interest\<close>, where \<open>periods\<close> is the value of \<open>nper\<close> on the inputs
  alone (when \<open>nper\<close> is not a finite number, neither is \<open>interest_saved\<close>).
\<close>

theorem result_fields:
  assumes "calculate_mortgage_savings initial_principal monthly_payment annual_rate
             prepayment_amount prepayment_freq verbose = Some (res, out)"
  shows "res_total_months res = int (length (res_history res))
       \<and> res_total_interest res = sum_list (map monthly_interest (res_history res))
       \<and> res_interest_saved res =
           map_option
             (\<lambda>periods. monthly_payment * periods - initial_principal - res_total_interest res)
             (nper (monthly_rate annual_rate) (- monthly_payment) initial_principal)"
proof -
  from calculate_SomeD [OF assms] obtain k where
    res: "res = \<lparr>res_total_months = int k,
            res_total_interest = total_interest
              (run monthly_payment (monthly_rate annual_rate) prepayment_amount
                 prepayment_freq verbose initial_principal k),
            res_interest_saved =
              map_option (\<lambda>orig. orig - total_interest
                (run monthly_payment (monthly_rate annual_rate) prepayment_amount
                   prepayment_freq verbose initial_principal k))
                (original_total_interest initial_principal monthly_payment
                   (monthly_rate annual_rate)),
            res_history = history
              (run monthly_payment (monthly_rate annual_rate) prepayment_amount
                 prepayment_freq verbose initial_principal k)\<rparr>"
    by (elim conjE exE)
  have months: "res_total_months res = int (length (res_history res))"
    by (simp add: res run_history)
  have interest: "res_total_interest res = sum_list (map monthly_interest (res_history res))"
    by (simp add: res run_history run_total_interest o_def
          interv_sum_list_conv_sum_set_nat atLeast0LessThan)
  have saved: "res_interest_saved res =
           map_option
             (\<lambda>periods. monthly_payment * periods - initial_principal - res_total_interest res)
             (nper (monthly_rate annual_rate) (- monthly_payment) initial_principal)"
    by (simp add: res original_total_interest_def option.map_comp o_def)
  from months interest saved show ?thesis by simp
qed

theorem result_fields_witness:
  "calculate_mortgage_savings 1000 600 12 0 ''monthly'' True =
     Some (\<lparr>res_total_months = 2, res_total_interest = 141 / 10,
            res_interest_saved = Some (600 * (ln (60 / 59) / ln (101 / 100)) - 1000 - 141 / 10),
            res_history =
              [\<lparr>month = 1, remaining_principal = 410, monthly_interest = 10\<rparr>,
               \<lparr>month = 2, remaining_principal = 0, monthly_interest = 41 / 10\<rparr>]\<rparr>,
           [\<lparr>month = 1, remaining_principal = 410, monthly_interest = 10\<rparr>,
            \<lparr>month = 2, remaining_principal = 0, monthly_interest = 41 / 10\<rparr>])
   \<and> (2::int) = int (length
          [\<lparr>month = 1, remaining_principal = 410, monthly_interest = 10\<rparr>,
           \<lparr>month = 2, remaining_principal = 0, monthly_interest = 41 / 10\<rparr>])
   \<and> (141 / 10 :: real) = sum_list (map monthly_interest
          [\<lparr>month = 1, remaining_principal = 410, monthly_interest = 10\<rparr>,
           \<lparr>month = 2, remaining_principal = 0, monthly_interest = 41 / 10\<rparr>])
   \<and> Some (600 * (ln (60 / 59) / ln (101 / 100)) - 1000 - 141 / 10) =
       map_option (\<lambda>periods. 600 * periods - 1000 - 141 / 10)
         (nper (monthly_rate 12) (- 600) 1000)"
  using result_fields [OF example_two_months] example_two_months by simp

text \<open>
  C10. The returned dictionary does not depend on the verbose flag: the call with
  \<open>verbose = True\<close> and the call with \<open>verbose = False\<close> either both fail to return
  or return the same \<open>total_months\<close>, \<open>total_interest\<close>, \<open>interest_saved\<close> and
  \<open>history\<close>. Only what is written to the page differs.
\<close>

theorem verbose_result_unchanged:
  "map_option fst (calculate_mortgage_savings initial_principal monthly_payment annual_rate
       prepayment_amount prepayment_freq True) =
   map_option fst (calculate_mortgage_savings initial_principal monthly_payment annual_rate
       prepayment_amount prepayment_freq False)"
proof (cases "calculate_mortgage_savings initial_principal monthly_payment annual_rate
       prepayment_amount prepayment_freq True")
  case None
  have "calculate_mortgage_savings initial_principal monthly_payment annual_rate
       prepayment_amount prepayment_freq False = None"
  proof (rule ccontr)
    assume "calculate_mortgage_savings initial_principal monthly_payment annual_rate
       prepayment_amount prepayment_freq False \<noteq> None"
    then obtain res out where "calculate_mortgage_savings initial_principal monthly_payment
       annual_rate prepayment_amount prepayment_freq False = Some (res, out)"
      by auto
    from calculate_verbose [OF this, of True] None show False by simp
  qed
  with None show ?thesis by simp
next
  case (Some p)
  obtain res out where p: "p = (res, out)" by (cases p)
  from calculate_verbose [OF Some [unfolded p], of False] Some p show ?thesis by auto
qed

end
